theory Spec2Isabelle
  imports Complex_Main
begin

section \<open>Exceptions\<close>

text \<open>
  Modelled from the spec: the module \<^verbatim>\<open>exceptions.py\<close> that both source files import
  from is not among the sources. Its classes \<^verbatim>\<open>AuthException\<close>,
  \<^verbatim>\<open>AuthRequiredException\<close> and \<^verbatim>\<open>RequestException\<close> (which carries the backend's
  message) are taken from the import lines and from the error taxonomy of the
  specification. The other constructors are the built-in exceptions of Python that the
  operations used by the sources raise: \<^verbatim>\<open>min\<close> and \<^verbatim>\<open>max\<close> of an empty sequence
  (ValueError), an index out of range (IndexError), a missing dictionary key (KeyError),
  an operation on a value of the wrong kind (TypeError), a missing method
  (AttributeError), a zero divisor (ZeroDivisionError) and a timestamp that dateutil
  cannot read (ParserError).
\<close>

datatype error =
    AuthException
  | AuthRequiredException
  | RequestException string
  | ValueError
  | IndexError
  | KeyError string
  | TypeError
  | AttributeError
  | ZeroDivisionError
  | ParserError

section \<open>Timestamps\<close>

text \<open>
  A timezone-aware \<^verbatim>\<open>datetime\<close>: the calendar date as its proleptic Gregorian day
  number (\<^verbatim>\<open>toordinal()\<close>), the wall-clock fields, and the offset of its zone from UTC
  in seconds. The backend's timestamps carry a zone designator, and the clock of the
  sources is \<^verbatim>\<open>datetime.now(timezone.utc)\<close>, so every timestamp here is aware.
\<close>

record datetime =
  ordinal :: int
  hour :: nat
  minute :: nat
  second :: nat
  microsecond :: nat
  utcoffset :: int

text \<open>Aware timestamps are compared as instants: microseconds on the UTC time line.\<close>

definition utc_microseconds :: "datetime \<Rightarrow> int" where
  "utc_microseconds d =
     ((((ordinal d * 24 + int (hour d)) * 60 + int (minute d)) * 60 + int (second d))
        - utcoffset d) * 1000000 + int (microsecond d)"

definition dt_le :: "datetime \<Rightarrow> datetime \<Rightarrow> bool" where
  "dt_le a b = (utc_microseconds a \<le> utc_microseconds b)"

definition dt_lt :: "datetime \<Rightarrow> datetime \<Rightarrow> bool" where
  "dt_lt a b = (utc_microseconds a < utc_microseconds b)"

text \<open>\<^verbatim>\<open>d + timedelta(days=n)\<close>: the wall-clock fields and the zone stay.\<close>

definition add_days :: "datetime \<Rightarrow> int \<Rightarrow> datetime" where
  "add_days d n = d\<lparr>ordinal := ordinal d + n\<rparr>"

section \<open>Floats\<close>

text \<open>
  Amounts are Python floats, binary64 numbers; a finite one is the real number it
  denotes (the infinities and NaN have no counterpart here). The float operations are
  the interpreter's, not the repository's, and they round every result to binary64, so
  they are not the operations of the real numbers: \<^verbatim>\<open>a + b\<close>, \<^verbatim>\<open>sum(xs)\<close> of a
  non-empty sequence of floats, \<^verbatim>\<open>a / b\<close> with a divisor other than zero, and
  \<^verbatim>\<open>round(a, ndigits)\<close> are taken as parameters. What is proved below holds for
  whatever these four compute.
\<close>

record float_ops =
  float_add :: "real \<Rightarrow> real \<Rightarrow> real"
  float_sum :: "real list \<Rightarrow> real"
  float_div :: "real \<Rightarrow> real \<Rightarrow> real"
  float_round :: "real \<Rightarrow> nat \<Rightarrow> real"

section \<open>Price\<close>

text \<open>
  The four amounts have the type \<open>'a\<close> of what the object holds: the constructor
  stores the decoded values as they come, so a parsed response gives entries over
  \<open>json\<close>; the class declares the amounts \<^verbatim>\<open>float\<close>, and the operations on amounts
  are those of entries over \<open>real\<close>.
\<close>

record 'a price =
  date_from :: datetime
  date_till :: datetime
  market_price :: 'a
  market_price_tax :: 'a
  sourcing_markup_price :: 'a
  energy_tax_price :: 'a

text \<open>
  The three time predicates read the clock; \<open>now\<close> is the value of
  \<^verbatim>\<open>datetime.now(timezone.utc)\<close>, read once for the operation at hand.
\<close>

definition for_now :: "datetime \<Rightarrow> 'a price \<Rightarrow> bool" where
  "for_now now p = (dt_le (date_from p) now \<and> dt_lt now (date_till p))"

definition for_future :: "datetime \<Rightarrow> 'a price \<Rightarrow> bool" where
  "for_future now p = (hour (date_from p) > hour now)"

definition for_today :: "datetime \<Rightarrow> 'a price \<Rightarrow> bool" where
  "for_today now p =
     (let day_start = now\<lparr>hour := 0, minute := 0, second := 0, microsecond := 0\<rparr>;
          day_end = add_days day_start 1
      in dt_le day_start (date_from p) \<and> dt_le (date_till p) day_end)"

definition market_price_with_tax :: "float_ops \<Rightarrow> real price \<Rightarrow> real" where
  "market_price_with_tax ops p =
     float_round ops (float_add ops (market_price p) (market_price_tax p)) 4"

text \<open>The sum is formed from left to right, as \<^verbatim>\<open>a + b + c + d\<close> is.\<close>

definition total_price :: "float_ops \<Rightarrow> real price \<Rightarrow> real" where
  "total_price ops p =
     float_round ops
       (float_add ops
          (float_add ops
             (float_add ops (market_price p) (market_price_tax p))
             (sourcing_markup_price p))
          (energy_tax_price p))
       4"

section \<open>Decoded JSON\<close>

text \<open>
  What \<^verbatim>\<open>resp.json()\<close> hands over: \<^verbatim>\<open>None\<close>, a bool, a number, a string, a list
  or a dictionary with string keys (an association list, looked up with \<open>map_of\<close>).
\<close>

datatype json =
    JNull
  | JBool bool
  | JNum real
  | JStr string
  | JArr "json list"
  | JObj "(string \<times> json) list"

text \<open>Python's truth value of a decoded value, as \<^verbatim>\<open>if x:\<close> tests it.\<close>

fun truthy :: "json \<Rightarrow> bool" where
  "truthy JNull = False"
| "truthy (JBool b) = b"
| "truthy (JNum r) = (r \<noteq> 0)"
| "truthy (JStr s) = (s \<noteq> [])"
| "truthy (JArr xs) = (xs \<noteq> [])"
| "truthy (JObj kvs) = (kvs \<noteq> [])"

text \<open>\<^verbatim>\<open>x.get(k)\<close>: only a dictionary has the method; a missing key gives \<^verbatim>\<open>None\<close>.\<close>

fun dict_get :: "json \<Rightarrow> string \<Rightarrow> error + json" where
  "dict_get (JObj kvs) k = Inr (case map_of kvs k of None \<Rightarrow> JNull | Some v \<Rightarrow> v)"
| "dict_get _ k = Inl AttributeError"

text \<open>\<^verbatim>\<open>x[k]\<close> with a string key: KeyError on a dictionary without it, TypeError else.\<close>

fun getitem :: "json \<Rightarrow> string \<Rightarrow> error + json" where
  "getitem (JObj kvs) k = (case map_of kvs k of None \<Rightarrow> Inl (KeyError k) | Some v \<Rightarrow> Inr v)"
| "getitem _ k = Inl TypeError"

text \<open>
  \<^verbatim>\<open>x[0]\<close>: the first element of a list, the first character of a string; a
  dictionary has string keys only, so the key \<open>0\<close> is missing.
\<close>

fun getitem0 :: "json \<Rightarrow> error + json" where
  "getitem0 (JArr []) = Inl IndexError"
| "getitem0 (JArr (x # xs)) = Inr x"
| "getitem0 (JStr []) = Inl IndexError"
| "getitem0 (JStr (c # cs)) = Inr (JStr [c])"
| "getitem0 (JObj kvs) = Inl (KeyError ''0'')"
| "getitem0 _ = Inl TypeError"

text \<open>
  \<^verbatim>\<open>for x in v\<close>: the elements of a list, the characters of a string, the keys of a
  dictionary; nothing else is iterable.
\<close>

fun iter :: "json \<Rightarrow> error + json list" where
  "iter (JArr xs) = Inr xs"
| "iter (JStr s) = Inr (map (\<lambda>c. JStr [c]) s)"
| "iter (JObj kvs) = Inr (map (\<lambda>kv. JStr (fst kv)) kvs)"
| "iter _ = Inl TypeError"

text \<open>\<^verbatim>\<open>s.startswith(prefix)\<close> on two strings.\<close>

definition startswith :: "string \<Rightarrow> string \<Rightarrow> bool" where
  "startswith s pre = (take (length pre) s = pre)"

section \<open>Price.__init__\<close>

text \<open>
  \<open>parse\<close> stands for \<^verbatim>\<open>dateutil.parser.parse\<close>, a library outside the repository.
  The constructor reads the six keys in the order of the source, so the first missing
  key decides the KeyError; the two timestamps go through the parser, the four amounts
  are stored as they are read.
\<close>

definition Price_init :: "(json \<Rightarrow> error + datetime) \<Rightarrow> json \<Rightarrow> error + json price" where
  "Price_init parse data =
     (case getitem data ''from'' of Inl e \<Rightarrow> Inl e | Inr f \<Rightarrow>
     (case parse f of Inl e \<Rightarrow> Inl e | Inr df \<Rightarrow>
     (case getitem data ''till'' of Inl e \<Rightarrow> Inl e | Inr t \<Rightarrow>
     (case parse t of Inl e \<Rightarrow> Inl e | Inr dt \<Rightarrow>
     (case getitem data ''marketPrice'' of Inl e \<Rightarrow> Inl e | Inr mp \<Rightarrow>
     (case getitem data ''marketPriceTax'' of Inl e \<Rightarrow> Inl e | Inr mpt \<Rightarrow>
     (case getitem data ''sourcingMarkupPrice'' of Inl e \<Rightarrow> Inl e | Inr smp \<Rightarrow>
     (case getitem data ''energyTaxPrice'' of Inl e \<Rightarrow> Inl e | Inr etp \<Rightarrow>
        Inr \<lparr>date_from = df, date_till = dt, market_price = mp, market_price_tax = mpt,
             sourcing_markup_price = smp, energy_tax_price = etp\<rparr>))))))))"

section \<open>PriceData\<close>

record 'a pricedata =
  price_data :: "'a price list"

text \<open>The comprehension \<^verbatim>\<open>[Price(price) for price in price_data]\<close>: the first error ends it.\<close>

fun Price_list ::
  "(json \<Rightarrow> error + datetime) \<Rightarrow> json list \<Rightarrow> error + json price list" where
  "Price_list parse [] = Inr []"
| "Price_list parse (x # xs) =
     (case Price_init parse x of Inl e \<Rightarrow> Inl e | Inr p \<Rightarrow>
     (case Price_list parse xs of Inl e \<Rightarrow> Inl e | Inr ps \<Rightarrow> Inr (p # ps)))"

text \<open>
  \<^verbatim>\<open>PriceData(price_data)\<close>. With \<^verbatim>\<open>None\<close> (also the default of the argument) the
  instance sets no attribute and reads the class attribute \<^verbatim>\<open>price_data = []\<close>.
\<close>

definition PriceData_init ::
  "(json \<Rightarrow> error + datetime) \<Rightarrow> json \<Rightarrow> error + json pricedata" where
  "PriceData_init parse v =
     (if v = JNull then Inr \<lparr>price_data = []\<rparr>
      else (case iter v of Inl e \<Rightarrow> Inl e | Inr xs \<Rightarrow>
           (case Price_list parse xs of Inl e \<Rightarrow> Inl e | Inr ps \<Rightarrow> Inr \<lparr>price_data = ps\<rparr>)))"

text \<open>\<^verbatim>\<open>PriceData()\<close>, the empty series.\<close>

definition PriceData_empty :: "'a pricedata" where
  "PriceData_empty = \<lparr>price_data = []\<rparr>"

text \<open>\<^verbatim>\<open>__add__\<close>: a new object whose list is the concatenation of the two lists.\<close>

definition PriceData_add :: "'a pricedata \<Rightarrow> 'a pricedata \<Rightarrow> 'a pricedata" where
  "PriceData_add a b = \<lparr>price_data = price_data a @ price_data b\<rparr>"

definition all_prices :: "'a pricedata \<Rightarrow> 'a price list" where
  "all_prices pd = price_data pd"

definition today :: "datetime \<Rightarrow> 'a pricedata \<Rightarrow> 'a price list" where
  "today now pd = filter (for_today now) (price_data pd)"

definition current_hour :: "datetime \<Rightarrow> 'a pricedata \<Rightarrow> error + 'a price" where
  "current_hour now pd =
     (case filter (for_now now) (price_data pd) of
        [] \<Rightarrow> Inl IndexError
      | p # ps \<Rightarrow> Inr p)"

text \<open>
  The built-ins \<^verbatim>\<open>min(xs, key=f)\<close> and \<^verbatim>\<open>max(xs, key=f)\<close>: the first element is the
  candidate, a later one replaces it only when its key is strictly smaller (larger); an
  empty sequence raises ValueError.
\<close>

fun min_loop :: "('a \<Rightarrow> real) \<Rightarrow> 'a \<Rightarrow> 'a list \<Rightarrow> 'a" where
  "min_loop key best [] = best"
| "min_loop key best (x # xs) =
     (if key x < key best then min_loop key x xs else min_loop key best xs)"

fun max_loop :: "('a \<Rightarrow> real) \<Rightarrow> 'a \<Rightarrow> 'a list \<Rightarrow> 'a" where
  "max_loop key best [] = best"
| "max_loop key best (x # xs) =
     (if key x > key best then max_loop key x xs else max_loop key best xs)"

definition py_min :: "('a \<Rightarrow> real) \<Rightarrow> 'a list \<Rightarrow> error + 'a" where
  "py_min key xs = (case xs of [] \<Rightarrow> Inl ValueError | x # ys \<Rightarrow> Inr (min_loop key x ys))"

definition py_max :: "('a \<Rightarrow> real) \<Rightarrow> 'a list \<Rightarrow> error + 'a" where
  "py_max key xs = (case xs of [] \<Rightarrow> Inl ValueError | x # ys \<Rightarrow> Inr (max_loop key x ys))"

definition today_min :: "float_ops \<Rightarrow> datetime \<Rightarrow> real pricedata \<Rightarrow> error + real price" where
  "today_min ops now pd = py_min (total_price ops) (today now pd)"

definition today_max :: "float_ops \<Rightarrow> datetime \<Rightarrow> real pricedata \<Rightarrow> error + real price" where
  "today_max ops now pd = py_max (total_price ops) (today now pd)"

text \<open>
  \<^verbatim>\<open>sum(xs)\<close> starts from the integer 0, which it returns for an empty sequence, and
  adds up the floats of a non-empty one.
\<close>

definition py_sum :: "float_ops \<Rightarrow> real list \<Rightarrow> real" where
  "py_sum ops xs = (if xs = [] then 0 else float_sum ops xs)"

text \<open>Python's \<^verbatim>\<open>a / b\<close> on numbers: a zero divisor raises ZeroDivisionError.\<close>

definition py_truediv :: "float_ops \<Rightarrow> real \<Rightarrow> real \<Rightarrow> error + real" where
  "py_truediv ops a b = (if b = 0 then Inl ZeroDivisionError else Inr (float_div ops a b))"

text \<open>
  \<^verbatim>\<open>round(sum(hour.total for hour in self.today) / len(self.today), 5)\<close>: the sum, the
  length, the division, and the rounding of the quotient. Nothing tests the length
  before the division.
\<close>

definition today_avg :: "float_ops \<Rightarrow> datetime \<Rightarrow> real pricedata \<Rightarrow> error + real" where
  "today_avg ops now pd =
     (case py_truediv ops (py_sum ops (map (total_price ops) (today now pd)))
             (real (length (today now pd))) of
        Inl e \<Rightarrow> Inl e
      | Inr q \<Rightarrow> Inr (float_round ops q 5))"

definition get_future_prices :: "datetime \<Rightarrow> 'a pricedata \<Rightarrow> 'a price list" where
  "get_future_prices now pd = filter (for_future now) (price_data pd)"

section \<open>MarketPrices\<close>

record 'a marketprices =
  electricity :: "'a pricedata"
  gas :: "'a pricedata"

definition MarketPrices_from_dict ::
  "(json \<Rightarrow> error + datetime) \<Rightarrow> json \<Rightarrow> error + json marketprices" where
  "MarketPrices_from_dict parse data =
     (case dict_get data ''errors'' of Inl e \<Rightarrow> Inl e | Inr errors \<Rightarrow>
      if truthy errors then
        (case getitem0 errors of Inl e \<Rightarrow> Inl e | Inr first \<Rightarrow>
        (case getitem first ''message'' of Inl e \<Rightarrow> Inl e | Inr message \<Rightarrow>
        (case message of
           JStr m \<Rightarrow>
             if startswith m ''No marketprices found for segment''
             then Inr \<lparr>electricity = PriceData_empty, gas = PriceData_empty\<rparr>
             else Inl (RequestException m)
         | _ \<Rightarrow> Inl AttributeError)))
      else
        (case dict_get data ''data'' of Inl e \<Rightarrow> Inl e | Inr payload \<Rightarrow>
         if \<not> truthy payload then Inl (RequestException ''Unexpected response'')
         else
           (case dict_get payload ''marketPricesElectricity'' of Inl e \<Rightarrow> Inl e | Inr el \<Rightarrow>
           (case PriceData_init parse el of Inl e \<Rightarrow> Inl e | Inr e_series \<Rightarrow>
           (case dict_get payload ''marketPricesGas'' of Inl e \<Rightarrow> Inl e | Inr ga \<Rightarrow>
           (case PriceData_init parse ga of Inl e \<Rightarrow> Inl e | Inr g_series \<Rightarrow>
             Inr \<lparr>electricity = e_series, gas = g_series\<rparr>))))))"

section \<open>FrankEnergie\<close>

text \<open>
  Modelled from the spec: the enumeration \<^verbatim>\<open>FrankCountry\<close> is imported from the models
  module, whose source does not declare it; its two members are the ones the client
  names.
\<close>

datatype FrankCountry = Netherlands | Belgium

record authentication =
  authToken :: "string option"
  refreshToken :: "string option"

typedecl ClientSession

record frank_energie =
  country :: "FrankCountry option"
  close_session :: bool
  auth :: "authentication option"
  session :: "ClientSession option"
  siteReference :: "string option"

definition FrankEnergie_init ::
  "ClientSession option \<Rightarrow> string option \<Rightarrow> string option \<Rightarrow> FrankCountry option
     \<Rightarrow> frank_energie" where
  "FrankEnergie_init clientsession auth_token refresh_token c =
     \<lparr>country = c,
      close_session = False,
      auth = (if auth_token \<noteq> None \<or> refresh_token \<noteq> None
              then Some \<lparr>authToken = auth_token, refreshToken = refresh_token\<rparr>
              else None),
      session = clientsession,
      siteReference = None\<rparr>"

definition is_authenticated :: "frank_energie \<Rightarrow> bool" where
  "is_authenticated fe = (auth fe \<noteq> None)"

text \<open>
  The loop of \<^verbatim>\<open>_query\<close> over the entries of a truthy \<^verbatim>\<open>errors\<close> value: each entry's
  message is read (a KeyError or TypeError when it has none) and compared with the
  sentinel.
\<close>

fun auth_scan :: "json list \<Rightarrow> error + unit" where
  "auth_scan [] = Inr ()"
| "auth_scan (e # es) =
     (case getitem e ''message'' of
        Inl x \<Rightarrow> Inl x
      | Inr m \<Rightarrow>
          if m = JStr ''user-error:auth-not-authorised'' then Inl AuthException
          else auth_scan es)"

text \<open>
  What \<^verbatim>\<open>_query\<close> does with the exchange: \<open>Failed\<close> is a timeout, a client error or a
  KeyError of the transport, which the method turns into ValueError; a decoded response
  is scanned for the authorisation sentinel and returned as it is otherwise.
\<close>

datatype exchange = Failed | Response json

definition FrankEnergie_query :: "exchange \<Rightarrow> error + json" where
  "FrankEnergie_query ex =
     (case ex of
        Failed \<Rightarrow> Inl ValueError
      | Response response \<Rightarrow>
          (case dict_get response ''errors'' of Inl e \<Rightarrow> Inl e | Inr errors \<Rightarrow>
           if truthy errors then
             (case iter errors of Inl e \<Rightarrow> Inl e | Inr es \<Rightarrow>
             (case auth_scan es of Inl e \<Rightarrow> Inl e | Inr u \<Rightarrow> Inr response))
           else Inr response))"

text \<open>\<^verbatim>\<open>prices\<close>: the response of \<^verbatim>\<open>_query\<close> goes to \<^verbatim>\<open>MarketPrices.from_dict\<close>.\<close>

definition prices ::
  "(json \<Rightarrow> error + datetime) \<Rightarrow> exchange \<Rightarrow> error + json marketprices" where
  "prices parse ex =
     (case FrankEnergie_query ex of Inl e \<Rightarrow> Inl e | Inr r \<Rightarrow> MarketPrices_from_dict parse r)"

section \<open>Sample values\<close>

text \<open>
  Concrete values for the instances below: a UTC timestamp on the hour, and the entry of
  one hour (for an hour before 23) whose whole price is its market price.
\<close>

definition utc_hour :: "int \<Rightarrow> nat \<Rightarrow> datetime" where
  "utc_hour day h =
     \<lparr>ordinal = day, hour = h, minute = 0, second = 0, microsecond = 0, utcoffset = 0\<rparr>"

definition hourly :: "int \<Rightarrow> nat \<Rightarrow> real \<Rightarrow> real price" where
  "hourly day h v =
     \<lparr>date_from = utc_hour day h, date_till = utc_hour day (h + 1),
      market_price = v, market_price_tax = 0, sourcing_markup_price = 0,
      energy_tax_price = 0\<rparr>"

text \<open>Half past ten in the morning, UTC, on day 738000.\<close>

definition half_past_ten :: datetime where
  "half_past_ten =
     \<lparr>ordinal = 738000, hour = 10, minute = 30, second = 0, microsecond = 0, utcoffset = 0\<rparr>"

text \<open>
  The sample amounts are small whole numbers. On such values binary64 arithmetic is
  exact where the exact result is a whole number or a half, and rounding to four or
  five digits leaves such a value as it is: \<^verbatim>\<open>3.0 + 0 + 0 + 0\<close> is \<^verbatim>\<open>3.0\<close>,
  \<^verbatim>\<open>round(3.0, 4)\<close> is \<^verbatim>\<open>3.0\<close>, \<^verbatim>\<open>sum([10.0, 20.0]) / 2\<close> is \<^verbatim>\<open>15.0\<close>. The
  operations below are the float operations as they act on these values; they are not
  binary64 arithmetic elsewhere, and no statement about every entry rests on them.
\<close>

definition whole_number_ops :: float_ops where
  "whole_number_ops =
     \<lparr>float_add = (\<lambda>a b. a + b), float_sum = sum_list, float_div = (\<lambda>a b. a / b),
      float_round = (\<lambda>a ndigits. a)\<rparr>"

text \<open>The equations that evaluate the time predicates and the amounts on such values.\<close>

lemmas sample_defs =
  for_now_def for_today_def dt_le_def dt_lt_def utc_microseconds_def add_days_def
  half_past_ten_def hourly_def utc_hour_def

lemmas amount_defs = total_price_def whole_number_ops_def

section \<open>Price: the hour-only test for later hours\<close>

text \<open>
  C8. For every price entry and every reading of the clock, \<^verbatim>\<open>for_future\<close> holds
  exactly when the hour of day of \<^verbatim>\<open>date_from\<close> is greater than the hour of day of
  the clock. Only the two hour fields are compared: moving the entry or the clock to
  another calendar day changes nothing.
\<close>

theorem for_future_hour_only:
  "for_future now p = (hour (date_from p) > hour now)
   \<and> for_future now (p\<lparr>date_from := (date_from p)\<lparr>ordinal := d\<rparr>\<rparr>) = for_future now p
   \<and> for_future (now\<lparr>ordinal := d'\<rparr>) p = for_future now p"
  by (simp add: for_future_def)

text \<open>
  At half past ten, the entry of three o'clock in the afternoon of the day before counts
  as a later hour, and the entry of nine o'clock of the day after does not.
\<close>

theorem for_future_hour_only_witness:
  "for_future half_past_ten (hourly 737999 15 1)
   \<and> \<not> for_future half_past_ten (hourly 738001 9 1)"
  using for_future_hour_only [of half_past_ten "hourly 737999 15 1" 738000 738000]
    for_future_hour_only [of half_past_ten "hourly 738001 9 1" 738000 738000]
  by (simp add: half_past_ten_def hourly_def utc_hour_def)

section \<open>PriceData: combination\<close>

text \<open>
  C2. For all price series a, b and c, \<^verbatim>\<open>a + b\<close> is a series whose entries are the
  entries of a followed by the entries of b, so its length is the sum of the two
  lengths, and the contents of \<^verbatim>\<open>(a + b) + c\<close> and of \<^verbatim>\<open>a + (b + c)\<close> are the same.
\<close>

theorem combine_concatenates:
  "all_prices (PriceData_add a b) = all_prices a @ all_prices b
   \<and> length (all_prices (PriceData_add a b)) = length (all_prices a) + length (all_prices b)
   \<and> all_prices (PriceData_add (PriceData_add a b) c)
       = all_prices (PriceData_add a (PriceData_add b c))"
  by (simp add: all_prices_def PriceData_add_def)

text \<open>An entry that both series hold is kept twice, each where its series has it.\<close>

theorem combine_concatenates_witness:
  "all_prices
     (PriceData_add \<lparr>price_data = [hourly 738000 1 1]\<rparr>
        \<lparr>price_data = [hourly 738000 0 2, hourly 738000 1 1]\<rparr>)
   = [hourly 738000 1 1, hourly 738000 0 2, hourly 738000 1 1]"
  using combine_concatenates
    [of "\<lparr>price_data = [hourly 738000 1 1]\<rparr>"
        "\<lparr>price_data = [hourly 738000 0 2, hourly 738000 1 1]\<rparr>"]
  by (simp add: all_prices_def)

section \<open>PriceData: the entry of the current hour\<close>

lemma filter_first_match:
  "(\<exists>p\<in>set xs. P p) \<Longrightarrow>
     \<exists>pre r post. filter P xs = r # filter P post \<and> xs = pre @ r # post \<and> P r
        \<and> (\<forall>y\<in>set pre. \<not> P y)"
proof (induction xs)
  case Nil
  then show ?case by simp
next
  case (Cons x xs)
  show ?case
  proof (cases "P x")
    case True
    then have "filter P (x # xs) = x # filter P xs \<and> x # xs = [] @ x # xs \<and> P x
        \<and> (\<forall>y\<in>set []. \<not> P y)"
      by simp
    then show ?thesis by blast
  next
    case False
    with Cons.prems have "\<exists>p\<in>set xs. P p" by auto
    from Cons.IH [OF this] obtain pre r post where
      h: "filter P xs = r # filter P post" "xs = pre @ r # post" "P r" "\<forall>y\<in>set pre. \<not> P y"
      by blast
    then have "filter P (x # xs) = r # filter P post \<and> x # xs = (x # pre) @ r # post \<and> P r
        \<and> (\<forall>y\<in>set (x # pre). \<not> P y)"
      using False by simp
    then show ?thesis by blast
  qed
qed

text \<open>
  C5. An entry is current when \<^verbatim>\<open>date_from <= now < date_till\<close>, compared as instants.
  For every price series, \<^verbatim>\<open>current_hour\<close> returns the first entry in series order
  that is current: no entry before it is. When no entry is current it fails: indexing
  the empty list of matches raises IndexError, the failure that the specification names
  NotFound.
\<close>

theorem current_hour_first_match:
  "for_now now p
     = (utc_microseconds (date_from p) \<le> utc_microseconds now
        \<and> utc_microseconds now < utc_microseconds (date_till p))
   \<and> ((\<exists>p\<in>set (all_prices pd). for_now now p) \<longrightarrow>
        (\<exists>pre r post. current_hour now pd = Inr r \<and> all_prices pd = pre @ r # post
           \<and> for_now now r \<and> (\<forall>y\<in>set pre. \<not> for_now now y)))
   \<and> ((\<forall>p\<in>set (all_prices pd). \<not> for_now now p) \<longrightarrow>
        current_hour now pd = Inl IndexError)"
proof (intro conjI impI)
  show "for_now now p
     = (utc_microseconds (date_from p) \<le> utc_microseconds now
        \<and> utc_microseconds now < utc_microseconds (date_till p))"
    by (simp add: for_now_def dt_le_def dt_lt_def)
next
  assume "\<exists>p\<in>set (all_prices pd). for_now now p"
  then have "\<exists>p\<in>set (price_data pd). for_now now p"
    by (simp add: all_prices_def)
  from filter_first_match [OF this] obtain pre r post where
    h: "filter (for_now now) (price_data pd) = r # filter (for_now now) post"
       "price_data pd = pre @ r # post" "for_now now r" "\<forall>y\<in>set pre. \<not> for_now now y"
    by blast
  then have "current_hour now pd = Inr r \<and> all_prices pd = pre @ r # post
           \<and> for_now now r \<and> (\<forall>y\<in>set pre. \<not> for_now now y)"
    by (simp add: current_hour_def all_prices_def)
  then show "\<exists>pre r post. current_hour now pd = Inr r \<and> all_prices pd = pre @ r # post
           \<and> for_now now r \<and> (\<forall>y\<in>set pre. \<not> for_now now y)"
    by blast
next
  assume "\<forall>p\<in>set (all_prices pd). \<not> for_now now p"
  then have "filter (for_now now) (price_data pd) = []"
    by (simp add: all_prices_def filter_empty_conv)
  then show "current_hour now pd = Inl IndexError"
    by (simp add: current_hour_def)
qed

text \<open>
  At half past ten, of two entries that cover the moment (ten to eleven, and ten to
  twelve) the one that stands first is returned; a series without such an entry fails.
\<close>

theorem current_hour_first_match_witness:
  "current_hour half_past_ten
     \<lparr>price_data =
        [hourly 738000 9 1, hourly 738000 10 2,
         (hourly 738000 10 3)\<lparr>date_till := utc_hour 738000 12\<rparr>, hourly 738000 11 4]\<rparr>
     = Inr (hourly 738000 10 2)
   \<and> current_hour half_past_ten \<lparr>price_data = [hourly 738000 9 1, hourly 738000 11 4]\<rparr>
     = Inl IndexError"
  using current_hour_first_match
    [of half_past_ten "hourly 738000 10 2"
        "\<lparr>price_data =
        [hourly 738000 9 1, hourly 738000 10 2,
         (hourly 738000 10 3)\<lparr>date_till := utc_hour 738000 12\<rparr>, hourly 738000 11 4]\<rparr>"]
    current_hour_first_match
    [of half_past_ten "hourly 738000 10 2"
        "\<lparr>price_data = [hourly 738000 9 1, hourly 738000 11 4]\<rparr>"]
  by (simp (no_asm) add: current_hour_def sample_defs)

section \<open>PriceData: the cheapest and the dearest entry of the day\<close>

text \<open>
  The loop of \<^verbatim>\<open>min\<close> splits the list at its result: every element before it has a
  strictly larger key, every element after it a key at least as large.
\<close>

lemma min_loop_split:
  "\<exists>pre post. best # xs = pre @ min_loop key best xs # post
     \<and> (\<forall>y\<in>set pre. key (min_loop key best xs) < key y)
     \<and> (\<forall>y\<in>set post. key (min_loop key best xs) \<le> key y)"
proof (induction xs arbitrary: best)
  case Nil
  have "[best] = [] @ best # [] \<and> (\<forall>y\<in>set []. key best < key y)
      \<and> (\<forall>y\<in>set []. key best \<le> key y)"
    by simp
  then show ?case
    by (simp only: min_loop.simps) blast
next
  case (Cons x xs)
  show ?case
  proof (cases "key x < key best")
    case True
    from Cons.IH [of x] obtain pre post where
      eq: "x # xs = pre @ min_loop key x xs # post"
      and lt: "\<forall>y\<in>set pre. key (min_loop key x xs) < key y"
      and le: "\<forall>y\<in>set post. key (min_loop key x xs) \<le> key y"
      by blast
    have "x \<in> set (pre @ min_loop key x xs # post)"
      using eq by (metis list.set_intros(1))
    then have "key (min_loop key x xs) \<le> key x"
      using lt le by auto
    then have "key (min_loop key x xs) < key best"
      using True by simp
    then have "best # x # xs = (best # pre) @ min_loop key (x) xs # post
       \<and> (\<forall>y\<in>set (best # pre). key (min_loop key x xs) < key y)
       \<and> (\<forall>y\<in>set post. key (min_loop key x xs) \<le> key y)"
      using eq lt le by simp
    then show ?thesis
      using True by (simp only: min_loop.simps if_True) blast
  next
    case False
    from Cons.IH [of best] obtain pre post where
      eq: "best # xs = pre @ min_loop key best xs # post"
      and lt: "\<forall>y\<in>set pre. key (min_loop key best xs) < key y"
      and le: "\<forall>y\<in>set post. key (min_loop key best xs) \<le> key y"
      by blast
    show ?thesis
    proof (cases pre)
      case Nil
      then have "best # xs = min_loop key best xs # post"
        using eq by (simp only: append_Nil)
      then have r: "min_loop key best xs = best" and p: "post = xs"
        by (metis list.inject)+
      have "best # x # xs = [] @ min_loop key best xs # (x # xs)
        \<and> (\<forall>y\<in>set []. key (min_loop key best xs) < key y)
        \<and> (\<forall>y\<in>set (x # xs). key (min_loop key best xs) \<le> key y)"
        using r p le False by simp
      then show ?thesis
        using False by (simp only: min_loop.simps if_False) blast
    next
      case (Cons b pre')
      then have "best # xs = b # (pre' @ min_loop key best xs # post)"
        using eq by (simp only: append_Cons)
      then have b: "b = best" and xs: "xs = pre' @ min_loop key best xs # post"
        by (metis list.inject)+
      have "key (min_loop key best xs) < key best"
        using lt Cons b by simp
      then have "key (min_loop key best xs) < key x"
        using False by simp
      then have "best # x # xs = (best # x # pre') @ min_loop key best xs # post
        \<and> (\<forall>y\<in>set (best # x # pre'). key (min_loop key best xs) < key y)
        \<and> (\<forall>y\<in>set post. key (min_loop key best xs) \<le> key y)"
        using xs lt le Cons b by simp
      then show ?thesis
        using False by (simp only: min_loop.simps if_False) blast
    qed
  qed
qed

lemma max_loop_split:
  "\<exists>pre post. best # xs = pre @ max_loop key best xs # post
     \<and> (\<forall>y\<in>set pre. key y < key (max_loop key best xs))
     \<and> (\<forall>y\<in>set post. key y \<le> key (max_loop key best xs))"
proof -
  have m: "max_loop key b ys = min_loop (\<lambda>y. - key y) b ys" for b ys
    by (induction ys arbitrary: b) simp_all
  show ?thesis
    using min_loop_split [of best xs "\<lambda>y. - key y"] by (simp add: m)
qed

lemma py_min_nonempty:
  assumes "xs \<noteq> []"
  shows "\<exists>r pre post. py_min key xs = Inr r \<and> xs = pre @ r # post
           \<and> (\<forall>y\<in>set pre. key r < key y) \<and> (\<forall>y\<in>set post. key r \<le> key y)"
proof -
  from assms obtain x ys where xs: "xs = x # ys"
    by (cases xs) auto
  have "py_min key xs = Inr (min_loop key x ys)"
    by (simp add: py_min_def xs)
  then show ?thesis
    using min_loop_split [of x ys key] xs by blast
qed

lemma py_max_nonempty:
  assumes "xs \<noteq> []"
  shows "\<exists>r pre post. py_max key xs = Inr r \<and> xs = pre @ r # post
           \<and> (\<forall>y\<in>set pre. key y < key r) \<and> (\<forall>y\<in>set post. key y \<le> key r)"
proof -
  from assms obtain x ys where xs: "xs = x # ys"
    by (cases xs) auto
  have "py_max key xs = Inr (max_loop key x ys)"
    by (simp add: py_max_def xs)
  then show ?thesis
    using max_loop_split [of x ys key] xs by blast
qed

text \<open>
  C6. The day subset is the entries satisfying \<^verbatim>\<open>for_today\<close>, in series order. For
  every price series whose day subset is not empty, \<^verbatim>\<open>today_min\<close> returns an entry of
  the subset whose total is strictly smaller than the total of every entry before it and
  at most the total of every entry after it (the minimum, the first of equals), and
  \<^verbatim>\<open>today_max\<close> likewise for the maximum. When the day subset is empty both fail:
  \<^verbatim>\<open>min\<close> and \<^verbatim>\<open>max\<close> of an empty sequence raise ValueError, the failure that the
  specification names EmptyRange. The totals are compared as the numbers they are,
  whatever the float operations that formed them compute.
\<close>

theorem today_min_max_first_extreme:
  "today now pd = filter (for_today now) (all_prices pd)
   \<and> (today now pd = [] \<longrightarrow>
        today_min ops now pd = Inl ValueError \<and> today_max ops now pd = Inl ValueError)
   \<and> (today now pd \<noteq> [] \<longrightarrow>
        (\<exists>r pre post. today_min ops now pd = Inr r \<and> today now pd = pre @ r # post
           \<and> (\<forall>y\<in>set pre. total_price ops r < total_price ops y)
           \<and> (\<forall>y\<in>set post. total_price ops r \<le> total_price ops y))
      \<and> (\<exists>r pre post. today_max ops now pd = Inr r \<and> today now pd = pre @ r # post
           \<and> (\<forall>y\<in>set pre. total_price ops y < total_price ops r)
           \<and> (\<forall>y\<in>set post. total_price ops y \<le> total_price ops r)))"
proof (intro conjI impI)
  show "today now pd = filter (for_today now) (all_prices pd)"
    by (simp add: today_def all_prices_def)
next
  assume "today now pd = []"
  then show "today_min ops now pd = Inl ValueError"
    by (simp add: today_min_def py_min_def)
next
  assume "today now pd = []"
  then show "today_max ops now pd = Inl ValueError"
    by (simp add: today_max_def py_max_def)
next
  assume "today now pd \<noteq> []"
  then show "\<exists>r pre post. today_min ops now pd = Inr r \<and> today now pd = pre @ r # post
           \<and> (\<forall>y\<in>set pre. total_price ops r < total_price ops y)
           \<and> (\<forall>y\<in>set post. total_price ops r \<le> total_price ops y)"
    unfolding today_min_def by (rule py_min_nonempty)
next
  assume "today now pd \<noteq> []"
  then show "\<exists>r pre post. today_max ops now pd = Inr r \<and> today now pd = pre @ r # post
           \<and> (\<forall>y\<in>set pre. total_price ops y < total_price ops r)
           \<and> (\<forall>y\<in>set post. total_price ops y \<le> total_price ops r)"
    unfolding today_max_def by (rule py_max_nonempty)
qed

text \<open>
  Of the five entries of the day, with totals 3, 1, 1, 5 and 5, the first of
  the two cheapest and the first of the two dearest are returned; the entries of the day
  before and of the day after do not count.
\<close>

theorem today_min_max_first_extreme_witness:
  "today_min whole_number_ops half_past_ten
     \<lparr>price_data =
        [hourly 737999 5 0, hourly 738000 0 3, hourly 738000 1 1, hourly 738000 2 1,
         hourly 738000 3 5, hourly 738000 4 5, hourly 738001 5 9]\<rparr>
     = Inr (hourly 738000 1 1)
   \<and> today_max whole_number_ops half_past_ten
     \<lparr>price_data =
        [hourly 737999 5 0, hourly 738000 0 3, hourly 738000 1 1, hourly 738000 2 1,
         hourly 738000 3 5, hourly 738000 4 5, hourly 738001 5 9]\<rparr>
     = Inr (hourly 738000 3 5)
   \<and> today_min whole_number_ops half_past_ten \<lparr>price_data = [hourly 737999 5 0]\<rparr>
     = Inl ValueError
   \<and> today_max whole_number_ops half_past_ten \<lparr>price_data = [hourly 737999 5 0]\<rparr>
     = Inl ValueError"
  using today_min_max_first_extreme
    [of half_past_ten "\<lparr>price_data =
        [hourly 737999 5 0, hourly 738000 0 3, hourly 738000 1 1, hourly 738000 2 1,
         hourly 738000 3 5, hourly 738000 4 5, hourly 738001 5 9]\<rparr>" whole_number_ops]
    today_min_max_first_extreme
    [of half_past_ten "\<lparr>price_data = [hourly 737999 5 0]\<rparr>" whole_number_ops]
  by (simp (no_asm) add: today_min_def today_max_def py_min_def py_max_def today_def
      sample_defs amount_defs)

section \<open>PriceData: the average of the day\<close>

text \<open>
  C7, as the code has it. For every price series whose day subset is not empty,
  \<^verbatim>\<open>today_avg\<close> returns the sum of the totals of the day's entries divided by their
  number, rounded to five digits: the float sum, the float quotient and \<^verbatim>\<open>round\<close>,
  whatever these compute. For every series whose day subset is empty the division is
  not guarded: it is carried out with the divisor zero and the operation fails with
  ZeroDivisionError.
\<close>

theorem today_avg_mean_or_zero_division:
  "(today now pd \<noteq> [] \<longrightarrow>
      today_avg ops now pd
        = Inr (float_round ops
                 (float_div ops (float_sum ops (map (total_price ops) (today now pd)))
                    (real (length (today now pd))))
                 5))
   \<and> (today now pd = [] \<longrightarrow> today_avg ops now pd = Inl ZeroDivisionError)"
  by (simp add: today_avg_def py_truediv_def py_sum_def)

text \<open>The totals 10 and 20 of the day give 15; the entry of the day before does not count.\<close>

theorem today_avg_mean_or_zero_division_witness:
  "today_avg whole_number_ops half_past_ten
     \<lparr>price_data = [hourly 737999 5 7, hourly 738000 0 10, hourly 738000 1 20]\<rparr> = Inr 15
   \<and> today_avg whole_number_ops half_past_ten \<lparr>price_data = [hourly 737999 5 7]\<rparr>
     = Inl ZeroDivisionError"
  using today_avg_mean_or_zero_division
    [of half_past_ten
        "\<lparr>price_data = [hourly 737999 5 7, hourly 738000 0 10, hourly 738000 1 20]\<rparr>"
        whole_number_ops]
    today_avg_mean_or_zero_division
    [of half_past_ten "\<lparr>price_data = [hourly 737999 5 7]\<rparr>" whole_number_ops]
  by (simp (no_asm) add: today_avg_def py_truediv_def py_sum_def today_def sample_defs
      amount_defs)

text \<open>
  C7 as the specification words it has the division by zero guarded. A series whose only
  entry belongs to the day after has an empty day subset; the quotient of the sum by the
  length is then formed with the divisor zero, and its ZeroDivisionError is the failure
  of the operation.
\<close>

theorem today_avg_empty_day_counterexample:
  "today half_past_ten \<lparr>price_data = [hourly 738001 0 10]\<rparr> = []
   \<and> py_truediv whole_number_ops
        (py_sum whole_number_ops
           (map (total_price whole_number_ops)
              (today half_past_ten \<lparr>price_data = [hourly 738001 0 10]\<rparr>)))
        (real (length (today half_past_ten \<lparr>price_data = [hourly 738001 0 10]\<rparr>)))
       = Inl ZeroDivisionError
   \<and> today_avg whole_number_ops half_past_ten \<lparr>price_data = [hourly 738001 0 10]\<rparr>
       = Inl ZeroDivisionError"
  by (simp add: today_avg_def py_truediv_def py_sum_def today_def sample_defs amount_defs)

section \<open>MarketPrices: the response of a prices query\<close>

text \<open>
  C3. For every response to a prices query whose \<^verbatim>\<open>errors\<close> list is present and whose
  first entry carries a message that starts with "No marketprices found for segment",
  \<^verbatim>\<open>MarketPrices.from_dict\<close> returns a value whose electricity and gas series are both
  empty, and raises nothing. When that entry is the only one, the response also passes
  the scan of \<^verbatim>\<open>_query\<close>, so \<^verbatim>\<open>prices\<close> returns the same pair.
\<close>

theorem from_dict_no_data_sentinel:
  assumes "map_of kvs ''errors'' = Some (JArr (JObj e # rest))"
    and "map_of e ''message'' = Some (JStr m)"
    and "startswith m ''No marketprices found for segment''"
  shows "MarketPrices_from_dict parse (JObj kvs) = Inr \<lparr>electricity = PriceData_empty, gas = PriceData_empty\<rparr>
    \<and> all_prices (PriceData_empty :: json pricedata) = []
    \<and> (rest = [] \<longrightarrow> prices parse (Response (JObj kvs))
          = Inr \<lparr>electricity = PriceData_empty, gas = PriceData_empty\<rparr>)"
proof (intro conjI impI)
  show fd: "MarketPrices_from_dict parse (JObj kvs)
      = Inr \<lparr>electricity = PriceData_empty, gas = PriceData_empty\<rparr>"
    using assms by (simp add: MarketPrices_from_dict_def)
  show "all_prices (PriceData_empty :: json pricedata) = []"
    by (simp add: all_prices_def PriceData_empty_def)
  assume "rest = []"
  have "m \<noteq> ''user-error:auth-not-authorised''"
    using assms(3) by (auto simp add: startswith_def)
  then have "FrankEnergie_query (Response (JObj kvs)) = Inr (JObj kvs)"
    using assms(1,2) \<open>rest = []\<close> by (simp add: FrankEnergie_query_def)
  then show "prices parse (Response (JObj kvs))
          = Inr \<lparr>electricity = PriceData_empty, gas = PriceData_empty\<rparr>"
    using fd by (simp add: prices_def)
qed

text \<open>The response of the specification's example, on its own path and through \<^verbatim>\<open>prices\<close>.\<close>

theorem from_dict_no_data_sentinel_witness:
  "MarketPrices_from_dict (\<lambda>v. Inl ParserError)
     (JObj [(''errors'', JArr [JObj [(''message'', JStr ''No marketprices found for segment VOL'')]])])
   = Inr \<lparr>electricity = \<lparr>price_data = []\<rparr>, gas = \<lparr>price_data = []\<rparr>\<rparr>
   \<and> prices (\<lambda>v. Inl ParserError)
     (Response
       (JObj [(''errors'', JArr [JObj [(''message'', JStr ''No marketprices found for segment VOL'')]])]))
   = Inr \<lparr>electricity = \<lparr>price_data = []\<rparr>, gas = \<lparr>price_data = []\<rparr>\<rparr>"
  using from_dict_no_data_sentinel
    [of "[(''errors'', JArr [JObj [(''message'', JStr ''No marketprices found for segment VOL'')]])]"
        "[(''message'', JStr ''No marketprices found for segment VOL'')]" "[]"
        "''No marketprices found for segment VOL''" "\<lambda>v. Inl ParserError"]
  by (simp add: startswith_def PriceData_empty_def)

text \<open>
  C10. For every response to a prices query without errors and with a non-empty data
  object: when the data object has no key \<^verbatim>\<open>marketPricesElectricity\<close>, the result is
  that of building the gas series, with an empty electricity series beside it, and no
  error is raised for the missing key; likewise with the two series exchanged; when both
  keys are missing the result is the pair of empty series.
\<close>

theorem from_dict_missing_series:
  assumes "\<not> truthy (case map_of kvs ''errors'' of None \<Rightarrow> JNull | Some v \<Rightarrow> v)"
    and "map_of kvs ''data'' = Some (JObj payload)"
    and "payload \<noteq> []"
  shows
    "(map_of payload ''marketPricesElectricity'' = None \<longrightarrow>
        MarketPrices_from_dict parse (JObj kvs)
          = (case PriceData_init parse
                   (case map_of payload ''marketPricesGas'' of None \<Rightarrow> JNull | Some v \<Rightarrow> v) of
               Inl err \<Rightarrow> Inl err
             | Inr g \<Rightarrow> Inr \<lparr>electricity = \<lparr>price_data = []\<rparr>, gas = g\<rparr>))
     \<and> (map_of payload ''marketPricesGas'' = None \<longrightarrow>
        MarketPrices_from_dict parse (JObj kvs)
          = (case PriceData_init parse
                   (case map_of payload ''marketPricesElectricity'' of None \<Rightarrow> JNull | Some v \<Rightarrow> v) of
               Inl err \<Rightarrow> Inl err
             | Inr s \<Rightarrow> Inr \<lparr>electricity = s, gas = \<lparr>price_data = []\<rparr>\<rparr>))
     \<and> (map_of payload ''marketPricesElectricity'' = None
          \<and> map_of payload ''marketPricesGas'' = None \<longrightarrow>
        MarketPrices_from_dict parse (JObj kvs)
          = Inr \<lparr>electricity = \<lparr>price_data = []\<rparr>, gas = \<lparr>price_data = []\<rparr>\<rparr>)"
  using assms
  by (simp add: MarketPrices_from_dict_def PriceData_init_def split: sum.splits)

text \<open>
  A data object that holds one gas record and no electricity key (the amounts of the
  record are stored as they are, the null among them too), and one that holds neither
  key.
\<close>

theorem from_dict_missing_series_witness:
  "MarketPrices_from_dict (\<lambda>v. Inr (utc_hour 738000 10))
     (JObj [(''data'', JObj [(''marketPricesGas'',
        JArr [JObj [(''from'', JStr ''a''), (''till'', JStr ''b''), (''marketPrice'', JNum 2),
                    (''marketPriceTax'', JNum 1), (''sourcingMarkupPrice'', JNum 0),
                    (''energyTaxPrice'', JNull)]])])])
   = Inr \<lparr>electricity = \<lparr>price_data = []\<rparr>,
          gas = \<lparr>price_data =
            [\<lparr>date_from = utc_hour 738000 10, date_till = utc_hour 738000 10,
              market_price = JNum 2, market_price_tax = JNum 1,
              sourcing_markup_price = JNum 0, energy_tax_price = JNull\<rparr>]\<rparr>\<rparr>
   \<and> MarketPrices_from_dict (\<lambda>v. Inr (utc_hour 738000 10))
       (JObj [(''data'', JObj [(''unrelated'', JNull)])])
     = Inr \<lparr>electricity = \<lparr>price_data = []\<rparr>, gas = \<lparr>price_data = []\<rparr>\<rparr>"
  using from_dict_missing_series
    [of "[(''data'', JObj [(''marketPricesGas'',
        JArr [JObj [(''from'', JStr ''a''), (''till'', JStr ''b''), (''marketPrice'', JNum 2),
                    (''marketPriceTax'', JNum 1), (''sourcingMarkupPrice'', JNum 0),
                    (''energyTaxPrice'', JNull)]])])]"
        "[(''marketPricesGas'',
        JArr [JObj [(''from'', JStr ''a''), (''till'', JStr ''b''), (''marketPrice'', JNum 2),
                    (''marketPriceTax'', JNum 1), (''sourcingMarkupPrice'', JNum 0),
                    (''energyTaxPrice'', JNull)]])]"
        "\<lambda>v. Inr (utc_hour 738000 10)"]
    from_dict_missing_series
    [of "[(''data'', JObj [(''unrelated'', JNull)])]" "[(''unrelated'', JNull)]"
        "\<lambda>v. Inr (utc_hour 738000 10)"]
  by (simp add: PriceData_init_def Price_init_def)

section \<open>The client: the authorisation sentinel\<close>

lemma auth_scan_sentinel:
  assumes "\<forall>x\<in>set pre. \<exists>m. getitem x ''message'' = Inr m"
    and "getitem e ''message'' = Inr (JStr ''user-error:auth-not-authorised'')"
  shows "auth_scan (pre @ e # post) = Inl AuthException"
  using assms by (induction pre) auto

text \<open>
  C4. For every response whose \<^verbatim>\<open>errors\<close> list holds an entry with the message
  "user-error:auth-not-authorised", every entry before it carrying a message as the
  response format has it, \<^verbatim>\<open>_query\<close> raises AuthException.
\<close>

theorem query_auth_sentinel:
  assumes "map_of kvs ''errors'' = Some (JArr (pre @ e # post))"
    and "\<forall>x\<in>set pre. \<exists>m. getitem x ''message'' = Inr m"
    and "getitem e ''message'' = Inr (JStr ''user-error:auth-not-authorised'')"
  shows "FrankEnergie_query (Response (JObj kvs)) = Inl AuthException"
  using assms(1) auth_scan_sentinel [OF assms(2,3), of post]
  by (simp add: FrankEnergie_query_def)

theorem query_auth_sentinel_witness:
  "FrankEnergie_query
     (Response (JObj [(''errors'',
        JArr [JObj [(''message'', JStr ''first'')],
              JObj [(''message'', JStr ''user-error:auth-not-authorised'')]])]))
   = Inl AuthException"
  using query_auth_sentinel
    [of "[(''errors'',
        JArr [JObj [(''message'', JStr ''first'')],
              JObj [(''message'', JStr ''user-error:auth-not-authorised'')]])]"
        "[JObj [(''message'', JStr ''first'')]]"
        "JObj [(''message'', JStr ''user-error:auth-not-authorised'')]" "[]"]
  by simp

section \<open>The client: presence of a session\<close>

text \<open>
  C9, as the code has it. For every client, \<^verbatim>\<open>is_authenticated\<close> is true if and only
  if an \<^verbatim>\<open>Authentication\<close> value has been set, whether or not both of its tokens are.
  The constructor sets one when it is given at least one of \<^verbatim>\<open>auth_token\<close> and
  \<^verbatim>\<open>refresh_token\<close>, and the value holds the two arguments as they were given; so a
  client constructed with one token reports a session whose other token is
  \<^verbatim>\<open>None\<close>, and a client constructed with neither reports none.
\<close>

theorem is_authenticated_constructor:
  "is_authenticated fe = (\<exists>p. auth fe = Some p)
   \<and> is_authenticated (FrankEnergie_init cs auth_token refresh_token c)
       = (auth_token \<noteq> None \<or> refresh_token \<noteq> None)
   \<and> (is_authenticated (FrankEnergie_init cs auth_token refresh_token c) \<longrightarrow>
        auth (FrankEnergie_init cs auth_token refresh_token c)
          = Some \<lparr>authToken = auth_token, refreshToken = refresh_token\<rparr>)
   \<and> \<not> is_authenticated (FrankEnergie_init cs None None c)"
  by (auto simp add: is_authenticated_def FrankEnergie_init_def)

text \<open>With both tokens, with the refresh token alone, and with neither.\<close>

theorem is_authenticated_constructor_witness:
  "is_authenticated (FrankEnergie_init None (Some ''a'') (Some ''r'') (Some Netherlands))
   \<and> auth (FrankEnergie_init None (Some ''a'') (Some ''r'') (Some Netherlands))
       = Some \<lparr>authToken = Some ''a'', refreshToken = Some ''r''\<rparr>
   \<and> is_authenticated (FrankEnergie_init None None (Some ''r'') (Some Belgium))
   \<and> auth (FrankEnergie_init None None (Some ''r'') (Some Belgium))
       = Some \<lparr>authToken = None, refreshToken = Some ''r''\<rparr>
   \<and> \<not> is_authenticated (FrankEnergie_init None None None (Some Netherlands))"
  using is_authenticated_constructor
    [of "FrankEnergie_init None None None (Some Netherlands)" None "Some ''a''" "Some ''r''"
        "Some Netherlands"]
    is_authenticated_constructor
    [of "FrankEnergie_init None None None (Some Netherlands)" None None "Some ''r''"
        "Some Belgium"]
  by (simp add: FrankEnergie_init_def)

text \<open>
  C9 as the specification words it ties the session to a pair of an authToken and a
  refreshToken. A client constructed with an auth token alone reports a session, and
  the refresh token of that session is \<^verbatim>\<open>None\<close>.
\<close>

theorem is_authenticated_single_token_counterexample:
  "is_authenticated (FrankEnergie_init None (Some ''token'') None (Some Netherlands))
   \<and> auth (FrankEnergie_init None (Some ''token'') None (Some Netherlands))
       = Some \<lparr>authToken = Some ''token'', refreshToken = None\<rparr>"
  by (simp add: is_authenticated_def FrankEnergie_init_def)

end
